theory Spec2Isabelle
  imports Complex_Main "HOL-Library.Sublist" "HOL-Library.Multiset" "HOL-Library.Word"
begin

section \<open>Event model\<close>

text \<open>
  A JavaScript string is a sequence of UTF-16 code units. The places of the feed and the
  search term are such sequences; \<open>ascii\<close> writes one whose characters are all ASCII.
\<close>

type_synonym code_unit = "16 word"

type_synonym js_string = "code_unit list"

definition ascii :: "string \<Rightarrow> js_string" where
  "ascii s = map of_char s"

text \<open>
  Modelled from the spec: the type declarations of \<^verbatim>\<open>types/earthquake.ts\<close> are not among
  the sources. The spec's data model gives an event a magnitude that "may be absent/null",
  a place that "may be absent" and an integer time in milliseconds since the epoch; the
  components read them the same way (\<^verbatim>\<open>properties.mag?.toFixed(1) || 'N/A'\<close>,
  \<^verbatim>\<open>properties.place || 'Unknown Location'\<close>). An absent value is \<open>None\<close>.

  A magnitude arrives through \<^verbatim>\<open>response.json()\<close> under a key the feed always
  carries, so it is a finite double or \<^verbatim>\<open>null\<close>: JSON has no literal for NaN. A finite
  double denotes one rational number and \<^verbatim>\<open>>=\<close> on finite doubles is the order of the
  numbers they denote, hence \<open>real\<close>; the thresholds 7, 5.5, 4 and 2.5 and the steps of the
  magnitude slider are doubles themselves. Only the fields that the functions below read
  are kept.
\<close>

record properties =
  mag :: "real option"
  place :: "js_string option"
  time :: int

record earthquake =
  ident :: string
  properties :: properties

section \<open>String builtins\<close>

text \<open>
  \<^verbatim>\<open>String.prototype.toLowerCase\<close> belongs to the platform, not to the program: it applies
  the case mappings of Unicode, which depend on the context of a character and can change
  the length of a string. The filter takes it as the parameter \<open>toLowerCase\<close>, so what is
  proved of the filter for every such function holds with the builtin.

  A string of ASCII code units is lowered by the builtin letter by letter, \<open>A\<close> to \<open>Z\<close>
  becoming \<open>a\<close> to \<open>z\<close> and nothing else changing. \<open>toLowerCaseASCII\<close> is that mapping; the
  closed statements below, whose strings are all ASCII, evaluate the filter with it. It
  says nothing of the builtin on any other string.
\<close>

definition toLowerCaseASCII :: "js_string \<Rightarrow> js_string" where
  "toLowerCaseASCII s = map (\<lambda>u. if 65 \<le> u \<and> u \<le> 90 then u + 32 else u) s"

text \<open>
  \<^verbatim>\<open>String.prototype.includes\<close>: the code units of the search string occur, in a row, at
  some position of the receiver. The scan goes through the start positions from left to
  right.
\<close>

fun str_includes :: "js_string \<Rightarrow> js_string \<Rightarrow> bool" where
  "str_includes [] t = (t = [])"
| "str_includes (c # cs) t = (prefix t (c # cs) \<or> str_includes cs t)"

section \<open>Filtering (App.tsx, filteredEarthquakes)\<close>

text \<open>
  \<^verbatim>\<open>earthquake.properties.place?.toLowerCase().includes(searchTerm.toLowerCase()) ?? false\<close>:
  the optional chain yields \<^verbatim>\<open>undefined\<close> for an absent place and \<^verbatim>\<open>??\<close> turns that
  into \<^verbatim>\<open>false\<close>.
\<close>

definition matchesSearch :: "(js_string \<Rightarrow> js_string) \<Rightarrow> earthquake \<Rightarrow> js_string \<Rightarrow> bool" where
  "matchesSearch toLowerCase earthquake searchTerm =
     (case place (properties earthquake) of
        None \<Rightarrow> False
      | Some p \<Rightarrow> str_includes (toLowerCase p) (toLowerCase searchTerm))"

text \<open>
  The relational operators of JavaScript convert their operands with ToNumber, and
  ToNumber of \<^verbatim>\<open>null\<close> is \<open>+0\<close>.
\<close>

definition toNumber :: "real option \<Rightarrow> real" where
  "toNumber v = (case v of None \<Rightarrow> 0 | Some x \<Rightarrow> x)"

definition matchesMagnitude :: "earthquake \<Rightarrow> real \<Rightarrow> bool" where
  "matchesMagnitude earthquake minMagnitude =
     (toNumber (mag (properties earthquake)) \<ge> minMagnitude)"

text \<open>\<^verbatim>\<open>Array.prototype.filter\<close> keeps the elements that pass, in their order.\<close>

definition filteredEarthquakes ::
  "(js_string \<Rightarrow> js_string) \<Rightarrow> earthquake list \<Rightarrow> js_string \<Rightarrow> real \<Rightarrow> earthquake list" where
  "filteredEarthquakes toLowerCase earthquakes searchTerm minMagnitude =
     filter (\<lambda>earthquake.
        matchesSearch toLowerCase earthquake searchTerm
        \<and> matchesMagnitude earthquake minMagnitude)
       earthquakes"

text \<open>An event built from the fields above.\<close>

definition mkEarthquake :: "string \<Rightarrow> real option \<Rightarrow> js_string option \<Rightarrow> int \<Rightarrow> earthquake" where
  "mkEarthquake i m p t =
     \<lparr>ident = i, properties = \<lparr>mag = m, place = p, time = t\<rparr>\<rparr>"

subsection \<open>The filter as the spec words it\<close>



text \<open>What the vacuous filter lets through: a place that is present, a magnitude not below 0.\<close>

definition placedNonNegative :: "earthquake \<Rightarrow> bool" where
  "placedNonNegative e =
     (place (properties e) \<noteq> None \<and> toNumber (mag (properties e)) \<ge> 0)"

section \<open>Rendering numbers\<close>

text \<open>
  A template literal renders an integer-valued number in decimal, with a minus sign when it
  is negative.
\<close>

function string_of_nat :: "nat \<Rightarrow> string" where
  "string_of_nat n =
     (if n < 10 then [''0123456789'' ! n]
      else string_of_nat (n div 10) @ [''0123456789'' ! (n mod 10)])"
  by pat_completeness auto
termination
  by (relation "measure (\<lambda>n. n)") auto

declare string_of_nat.simps [simp del]

definition string_of_int :: "int \<Rightarrow> string" where
  "string_of_int i =
     (if i < 0 then CHR ''-'' # string_of_nat (nat (- i)) else string_of_nat (nat i))"

subsection \<open>Reading a decimal numeral\<close>

text \<open>
  The value of a decimal numeral, for stating what a rendered count is without the
  renderer: a numeral is a digit, or several digits of which the first is not \<open>0\<close>, so a
  value has one numeral only.
\<close>

definition digitValue :: "char \<Rightarrow> nat option" where
  "digitValue c = map_of (zip ''0123456789'' [0, 1, 2, 3, 4, 5, 6, 7, 8, 9]) c"

fun digitsValue :: "nat \<Rightarrow> string \<Rightarrow> nat option" where
  "digitsValue v [] = Some v"
| "digitsValue v (c # cs) =
     (case digitValue c of None \<Rightarrow> None | Some d \<Rightarrow> digitsValue (10 * v + d) cs)"

definition decimalValue :: "string \<Rightarrow> nat option" where
  "decimalValue ds =
     (case ds of
        [] \<Rightarrow> None
      | c # cs \<Rightarrow> if c = CHR ''0'' \<and> cs \<noteq> [] then None else digitsValue 0 ds)"

section \<open>Feed client (hooks/useEarthquakes.ts)\<close>

text \<open>The four state cells of the hook; \<^verbatim>\<open>lastUpdated\<close> holds the clock reading in ms.\<close>

record hook_state =
  earthquakes :: "earthquake list"
  loading :: bool
  error :: "string option"
  lastUpdated :: "int option"

text \<open>
  What a \<^verbatim>\<open>catch\<close> can receive: an \<^verbatim>\<open>Error\<close> object with its message, or any other
  value.
\<close>

datatype thrown = ErrorObject string | OtherValue

text \<open>
  The network is outside the program, so its answer is an input. A response has its
  \<^verbatim>\<open>ok\<close> flag, its status and the outcome of \<^verbatim>\<open>await response.json()\<close> followed by
  the read of \<^verbatim>\<open>data.features\<close>: the array of events, or what was thrown on the way (a
  body that is not JSON, a document without a \<^verbatim>\<open>features\<close> array). \<^verbatim>\<open>fetch\<close> itself
  either resolves to a response or rejects.
\<close>

record response =
  ok :: bool
  status :: nat
  json :: "thrown + earthquake list"

datatype fetch_result = Rejected thrown | Resolved response

text \<open>The comparator handed to \<^verbatim>\<open>sort\<close>: \<^verbatim>\<open>(a, b) => b.properties.time - a.properties.time\<close>.\<close>

definition compareFn :: "earthquake \<Rightarrow> earthquake \<Rightarrow> int" where
  "compareFn a b = time (properties b) - time (properties a)"

text \<open>
  \<^verbatim>\<open>Array.prototype.sort\<close> is a builtin. ECMAScript requires it to be stable, so with a
  consistent comparator its result is determined: the elements in comparator order,
  equal ones in their original order. A stable insertion sort computes that result; an
  element goes in front of the first one it does not have to follow.
\<close>

fun insertSorted :: "('a \<Rightarrow> 'a \<Rightarrow> int) \<Rightarrow> 'a \<Rightarrow> 'a list \<Rightarrow> 'a list" where
  "insertSorted cmp x [] = [x]"
| "insertSorted cmp x (y # ys) =
     (if cmp x y \<le> 0 then x # y # ys else y # insertSorted cmp x ys)"

definition array_sort :: "('a \<Rightarrow> 'a \<Rightarrow> int) \<Rightarrow> 'a list \<Rightarrow> 'a list" where
  "array_sort cmp xs = foldr (insertSorted cmp) xs []"

text \<open>The order the hook promises: the first of two events is at least as recent as the second.\<close>

definition newestFirst :: "earthquake \<Rightarrow> earthquake \<Rightarrow> bool" where
  "newestFirst a b = (time (properties a) \<ge> time (properties b))"

text \<open>
  The body of the \<^verbatim>\<open>try\<close> block after the two initial state writes: it either throws
  or ends with the two state writes of the success path.
\<close>

definition tryBlock :: "fetch_result \<Rightarrow> int \<Rightarrow> hook_state \<Rightarrow> thrown + hook_state" where
  "tryBlock r now s =
     (case r of
        Rejected e \<Rightarrow> Inl e
      | Resolved resp \<Rightarrow>
          if \<not> ok resp
          then Inl (ErrorObject (''HTTP error! status: '' @ string_of_nat (status resp)))
          else (case json resp of
                  Inl e \<Rightarrow> Inl e
                | Inr features \<Rightarrow>
                    Inr (s\<lparr>earthquakes := array_sort compareFn features,
                           lastUpdated := Some now\<rparr>)))"

text \<open>\<^verbatim>\<open>err instanceof Error ? err.message : 'Failed to fetch earthquake data'\<close>\<close>

definition catchMessage :: "thrown \<Rightarrow> string" where
  "catchMessage err =
     (case err of ErrorObject m \<Rightarrow> m | OtherValue \<Rightarrow> ''Failed to fetch earthquake data'')"

text \<open>
  One run of \<^verbatim>\<open>fetchEarthquakes\<close> from the state \<open>s0\<close>, with the answer of the network
  and the clock reading of \<^verbatim>\<open>new Date()\<close> as inputs: \<^verbatim>\<open>setLoading(true)\<close> and
  \<^verbatim>\<open>setError(null)\<close>, the \<^verbatim>\<open>try\<close> block, the \<^verbatim>\<open>catch\<close>, and \<^verbatim>\<open>finally\<close>.
\<close>

definition fetchEarthquakes :: "fetch_result \<Rightarrow> int \<Rightarrow> hook_state \<Rightarrow> hook_state" where
  "fetchEarthquakes r now s0 =
     (let s = s0\<lparr>loading := True, error := None\<rparr>;
          s' = (case tryBlock r now s of
                  Inl err \<Rightarrow> s\<lparr>error := Some (catchMessage err)\<rparr>
                | Inr t \<Rightarrow> t)
      in s'\<lparr>loading := False\<rparr>)"

section \<open>Derivation utilities (utils/earthquakeUtils.ts, utils/dateUtils.ts)\<close>

text \<open>The magnitude handed to the two functions is a finite number, as in the event model.\<close>

definition getMagnitudeColor :: "real \<Rightarrow> string" where
  "getMagnitudeColor magnitude =
     (if magnitude \<ge> 7 then ''text-red-600 bg-red-100''
      else if magnitude \<ge> 5.5 then ''text-orange-600 bg-orange-100''
      else if magnitude \<ge> 4 then ''text-yellow-600 bg-yellow-100''
      else if magnitude \<ge> 2.5 then ''text-blue-600 bg-blue-100''
      else ''text-green-600 bg-green-100'')"

definition getMagnitudeLevel :: "real \<Rightarrow> string" where
  "getMagnitudeLevel magnitude =
     (if magnitude \<ge> 7 then ''Major''
      else if magnitude \<ge> 5.5 then ''Strong''
      else if magnitude \<ge> 4 then ''Moderate''
      else if magnitude \<ge> 2.5 then ''Minor''
      else ''Micro'')"

text \<open>
  \<^verbatim>\<open>getTimeAgo\<close> reads the clock with \<^verbatim>\<open>Date.now()\<close>; the reading is the parameter
  \<open>now\<close>. Both times are integers of milliseconds. For integers below \<open>2^53\<close> in absolute
  value the subtraction is exact, and \<^verbatim>\<open>Math.floor\<close> of the rounded quotient is the floor
  of the exact quotient, which is \<open>div\<close> on \<open>int\<close>.
\<close>

definition getTimeAgo :: "int \<Rightarrow> int \<Rightarrow> string" where
  "getTimeAgo now timestamp =
     (let diff = now - timestamp;
          minutes = diff div (1000 * 60);
          hours = diff div (1000 * 60 * 60);
          days = diff div (1000 * 60 * 60 * 24)
      in if minutes < 60
         then string_of_int minutes @ '' minute'' @ (if minutes \<noteq> 1 then ''s'' else []) @ '' ago''
         else if hours < 24
         then string_of_int hours @ '' hour'' @ (if hours \<noteq> 1 then ''s'' else []) @ '' ago''
         else string_of_int days @ '' day'' @ (if days \<noteq> 1 then ''s'' else []) @ '' ago'')"

subsection \<open>The relative age as the spec words it\<close>

text \<open>
  The spec expresses an age in whole minutes when it is under 60 minutes, in whole hours
  when it is under 24 hours and in whole days otherwise: a count and a noun. After the
  count come the noun, in the singular for a count of one and in the plural for any other
  count, and the word "ago".
\<close>

definition relativeAgeCount :: "int \<Rightarrow> nat \<times> string" where
  "relativeAgeCount age =
     (if age < 60 * 60000 then (nat (age div 60000), ''minute'')
      else if age < 24 * 3600000 then (nat (age div 3600000), ''hour'')
      else (nat (age div 86400000), ''day''))"

definition agoPhrase :: "nat \<times> string \<Rightarrow> string" where
  "agoPhrase cn =
     '' '' @ snd cn @ (if fst cn = 1 then [] else ''s'') @ '' ago''"

section \<open>Properties of the string builtins\<close>

lemma str_includes_sublist: "str_includes s t = sublist t s"
  by (induction s) (simp_all add: sublist_Cons_right)

lemma str_includes_Nil: "str_includes s []"
  by (simp add: str_includes_sublist)

lemma matchesSearch_empty:
  "toLowerCase [] = [] \<Longrightarrow> matchesSearch toLowerCase e [] = (place (properties e) \<noteq> None)"
  by (simp add: matchesSearch_def str_includes_Nil split: option.splits)

lemma vacuous_keeps:
  "toLowerCase [] = [] \<Longrightarrow>
   (matchesSearch toLowerCase e [] \<and> matchesMagnitude e 0) = placedNonNegative e"
  by (simp add: matchesSearch_empty matchesMagnitude_def placedNonNegative_def)

section \<open>Properties of the rendering of numbers\<close>

lemma below_ten: "d < 10 \<Longrightarrow> d \<in> {0, 1, 2, 3, 4, 5, 6, 7, 8, 9 :: nat}"
  by auto

lemma digitValue_digit: "d < 10 \<Longrightarrow> digitValue (''0123456789'' ! d) = Some d"
  by (drule below_ten) (auto simp: digitValue_def)

lemma digit_not_space: "d < 10 \<Longrightarrow> ''0123456789'' ! d \<noteq> CHR '' ''"
  by (drule below_ten) auto

lemma digit_zero: "d < 10 \<Longrightarrow> (''0123456789'' ! d = CHR ''0'') = (d = 0)"
  by (drule below_ten) auto

lemma digitsValue_append:
  "digitsValue v (xs @ ys) =
     (case digitsValue v xs of None \<Rightarrow> None | Some w \<Rightarrow> digitsValue w ys)"
  by (induction xs arbitrary: v) (simp_all split: option.splits)

lemma string_of_nat_single: "n < 10 \<Longrightarrow> string_of_nat n = [''0123456789'' ! n]"
  by (subst string_of_nat.simps) simp

lemma string_of_nat_not_Nil: "string_of_nat n \<noteq> []"
  by (subst string_of_nat.simps) simp

lemma digitsValue_string_of_nat: "digitsValue 0 (string_of_nat n) = Some n"
proof (induction n rule: string_of_nat.induct)
  case (1 n)
  show ?case
  proof (cases "n < 10")
    case True
    then show ?thesis
      by (simp add: string_of_nat_single digitValue_digit)
  next
    case False
    with 1 have "digitsValue 0 (string_of_nat (n div 10)) = Some (n div 10)"
      by simp
    with False show ?thesis
      by (subst string_of_nat.simps) (simp add: digitsValue_append digitValue_digit)
  qed
qed

lemma string_of_nat_no_space: "CHR '' '' \<notin> set (string_of_nat n)"
proof (induction n rule: string_of_nat.induct)
  case (1 n)
  show ?case
  proof (cases "n < 10")
    case True
    then show ?thesis
      using digit_not_space [of n] by (subst string_of_nat.simps) auto
  next
    case False
    with 1 have "CHR '' '' \<notin> set (string_of_nat (n div 10))"
      by simp
    with False show ?thesis
      using digit_not_space [of "n mod 10"] by (subst string_of_nat.simps) auto
  qed
qed

lemma string_of_nat_hd: "0 < n \<Longrightarrow> hd (string_of_nat n) \<noteq> CHR ''0''"
proof (induction n rule: string_of_nat.induct)
  case (1 n)
  show ?case
  proof (cases "n < 10")
    case True
    with 1(2) have "''0123456789'' ! n \<noteq> CHR ''0''"
      using digit_zero [of n] by blast
    then show ?thesis
      by (simp only: string_of_nat_single [OF True] list.sel not_False_eq_True)
  next
    case False
    then have "0 < n div 10"
      by (simp add: div_greater_zero_iff)
    with 1 False have "hd (string_of_nat (n div 10)) \<noteq> CHR ''0''"
      by simp
    with False show ?thesis
      by (subst string_of_nat.simps) (simp add: string_of_nat_not_Nil)
  qed
qed

lemma decimalValue_string_of_nat: "decimalValue (string_of_nat n) = Some n"
proof (cases "n < 10")
  case True
  then show ?thesis
    by (simp add: decimalValue_def string_of_nat_single digitValue_digit)
next
  case False
  then have "hd (string_of_nat n) \<noteq> CHR ''0''"
    by (intro string_of_nat_hd) simp
  then show ?thesis
    using string_of_nat_not_Nil [of n] digitsValue_string_of_nat [of n]
    by (cases "string_of_nat n") (simp_all add: decimalValue_def)
qed

lemma count_before_phrase:
  "takeWhile (\<lambda>c. c \<noteq> CHR '' '') (string_of_nat n @ agoPhrase cn) = string_of_nat n"
  using string_of_nat_no_space [of n]
  by (subst takeWhile_append2) (auto simp: agoPhrase_def)

lemma phrase_after_count:
  "dropWhile (\<lambda>c. c \<noteq> CHR '' '') (string_of_nat n @ agoPhrase cn) = agoPhrase cn"
  using string_of_nat_no_space [of n]
  by (subst dropWhile_append2) (auto simp: agoPhrase_def)

section \<open>Properties of the sort\<close>

lemma set_insertSorted: "set (insertSorted cmp x ys) = insert x (set ys)"
  by (induction ys) auto

lemma mset_insertSorted: "mset (insertSorted cmp x ys) = add_mset x (mset ys)"
  by (induction ys) auto

lemma mset_array_sort: "mset (array_sort cmp xs) = mset xs"
  by (induction xs) (simp_all add: array_sort_def mset_insertSorted)

lemma sorted_insertSorted:
  "sorted_wrt newestFirst ys \<Longrightarrow> sorted_wrt newestFirst (insertSorted compareFn x ys)"
  by (induction ys) (auto simp: set_insertSorted compareFn_def newestFirst_def)

lemma sorted_array_sort: "sorted_wrt newestFirst (array_sort compareFn xs)"
  by (induction xs) (simp_all add: array_sort_def sorted_insertSorted)

lemma adjacent_newestFirst:
  "sorted_wrt newestFirst es \<Longrightarrow> Suc i < length es \<Longrightarrow>
   time (properties (es ! Suc i)) \<le> time (properties (es ! i))"
  using sorted_wrt_nth_less [of newestFirst es i "Suc i"] by (simp add: newestFirst_def)

section \<open>Runs of the feed client\<close>

lemma fetch_success:
  "ok resp \<Longrightarrow> json resp = Inr features \<Longrightarrow>
   fetchEarthquakes (Resolved resp) now s =
     s\<lparr>earthquakes := array_sort compareFn features, loading := False,
       error := None, lastUpdated := Some now\<rparr>"
  by (simp add: fetchEarthquakes_def tryBlock_def)

section \<open>Whole counts of a duration\<close>

lemma int_div_less_iff:
  fixes a b n :: int
  assumes "0 < b"
  shows "(a div b < n) = (a < n * b)"
proof -
  define q where "q = a div b"
  define r where "r = a mod b"
  have split: "a = q * b + r"
    unfolding q_def r_def by simp
  have bound: "r < b" and sign: "0 \<le> r"
    unfolding r_def using assms by simp_all
  have up: "a < n * b" if "q < n"
  proof -
    from that have "q + 1 \<le> n" by simp
    then have "(q + 1) * b \<le> n * b"
      using assms by (simp only: mult_right_mono less_imp_le)
    moreover have "(q + 1) * b = q * b + b"
      by (simp add: algebra_simps)
    ultimately show ?thesis using split bound by linarith
  qed
  have down: "q < n" if "a < n * b"
  proof (rule ccontr)
    assume "\<not> q < n"
    then have "n \<le> q" by simp
    then have "n * b \<le> q * b"
      using assms by (simp only: mult_right_mono less_imp_le)
    with split sign that show False by linarith
  qed
  from up down show ?thesis
    unfolding q_def by blast
qed

lemma minutes_lt_60: "((d::int) div (1000 * 60) < 60) = (d < 60 * 60000)"
  by (simp add: int_div_less_iff)

lemma hours_lt_24: "((d::int) div (1000 * 60 * 60) < 24) = (d < 24 * 3600000)"
  by (simp add: int_div_less_iff)

lemma rendered_count:
  assumes "0 \<le> k"
  shows "string_of_int k @ (CHR '' '' # noun) @ (if k \<noteq> 1 then ''s'' else []) @ '' ago''
           = string_of_nat (nat k) @ agoPhrase (nat k, noun)"
proof -
  have "(nat k = 1) = (k = 1)"
    by auto
  with assms show ?thesis
    by (simp add: string_of_int_def agoPhrase_def)
qed

lemma getTimeAgo_count_phrase:
  assumes "timestamp \<le> now"
  shows "getTimeAgo now timestamp =
           string_of_nat (fst (relativeAgeCount (now - timestamp)))
           @ agoPhrase (relativeAgeCount (now - timestamp))"
proof -
  define d where "d = now - timestamp"
  have nonneg: "0 \<le> d div b" if "0 < b" for b
    using assms that by (simp add: d_def pos_imp_zdiv_nonneg_iff)
  have rendered: "getTimeAgo now timestamp =
      (if d < 60 * 60000
       then string_of_int (d div 60000) @ (CHR '' '' # ''minute'')
            @ (if d div 60000 \<noteq> 1 then ''s'' else []) @ '' ago''
       else if d < 24 * 3600000
       then string_of_int (d div 3600000) @ (CHR '' '' # ''hour'')
            @ (if d div 3600000 \<noteq> 1 then ''s'' else []) @ '' ago''
       else string_of_int (d div 86400000) @ (CHR '' '' # ''day'')
            @ (if d div 86400000 \<noteq> 1 then ''s'' else []) @ '' ago'')"
    unfolding getTimeAgo_def Let_def minutes_lt_60 hours_lt_24 d_def
    by (simp only: mult_numeral_left_semiring_numeral arith_simps)
  have count: "relativeAgeCount d =
      (if d < 60 * 60000 then (nat (d div 60000), ''minute'')
       else if d < 24 * 3600000 then (nat (d div 3600000), ''hour'')
       else (nat (d div 86400000), ''day''))"
    by (rule relativeAgeCount_def)
  have minutes: "0 \<le> d div 60000" and hours: "0 \<le> d div 3600000"
    and days: "0 \<le> d div 86400000"
    by (simp_all add: nonneg)
  show ?thesis
  proof (cases "d < 60 * 60000")
    case True
    then show ?thesis
      unfolding d_def [symmetric] rendered count
      by (simp only: if_True rendered_count [OF minutes] fst_conv)
  next
    case outer: False
    show ?thesis
    proof (cases "d < 24 * 3600000")
      case True
      with outer show ?thesis
        unfolding d_def [symmetric] rendered count
        by (simp only: if_True if_False rendered_count [OF hours] fst_conv)
    next
      case False
      with outer show ?thesis
        unfolding d_def [symmetric] rendered count
        by (simp only: if_False rendered_count [OF days] fst_conv)
    qed
  qed
qed

section \<open>The tokens of the magnitude utilities\<close>

lemma range_getMagnitudeColor:
  "range getMagnitudeColor =
     {''text-red-600 bg-red-100'', ''text-orange-600 bg-orange-100'',
      ''text-yellow-600 bg-yellow-100'', ''text-blue-600 bg-blue-100'',
      ''text-green-600 bg-green-100''}"
  (is "?L = ?R")
proof
  show "?L \<subseteq> ?R"
    by (auto simp: getMagnitudeColor_def)
  have "getMagnitudeColor 7 \<in> ?L" "getMagnitudeColor 6 \<in> ?L" "getMagnitudeColor 4 \<in> ?L"
    "getMagnitudeColor 3 \<in> ?L" "getMagnitudeColor 0 \<in> ?L"
    by blast+
  then show "?R \<subseteq> ?L"
    by (simp add: getMagnitudeColor_def)
qed

lemma range_getMagnitudeLevel:
  "range getMagnitudeLevel = {''Major'', ''Strong'', ''Moderate'', ''Minor'', ''Micro''}"
  (is "?L = ?R")
proof
  show "?L \<subseteq> ?R"
    by (auto simp: getMagnitudeLevel_def)
  have "getMagnitudeLevel 7 \<in> ?L" "getMagnitudeLevel 6 \<in> ?L" "getMagnitudeLevel 4 \<in> ?L"
    "getMagnitudeLevel 3 \<in> ?L" "getMagnitudeLevel 0 \<in> ?L"
    by blast+
  then show "?R \<subseteq> ?L"
    by (simp add: getMagnitudeLevel_def)
qed

section \<open>The filter\<close>

text \<open>
  Claim C1, as the spec states it: for every event list, the filter with the empty search
  term and the minimum magnitude 0 returns every event, also one whose place or magnitude
  is absent. The code drops an event without a place (the \<^verbatim>\<open>?? false\<close> of the search
  test) and an event whose magnitude is below 0: the claim fails on both.
\<close>

theorem vacuous_filter_drops_events:
  "filteredEarthquakes toLowerCaseASCII [mkEarthquake ''us1'' (Some 5) None 0] [] 0
     \<noteq> [mkEarthquake ''us1'' (Some 5) None 0]
   \<and> filteredEarthquakes toLowerCaseASCII
        [mkEarthquake ''ak2'' (Some (- 0.5)) (Some (ascii ''Alaska'')) 0] [] 0
     \<noteq> [mkEarthquake ''ak2'' (Some (- 0.5)) (Some (ascii ''Alaska'')) 0]"
  by (simp add: filteredEarthquakes_def matchesSearch_def matchesMagnitude_def toNumber_def
      mkEarthquake_def)

text \<open>
  Claim C1, amended: the filter with the empty search term and the minimum magnitude 0
  returns, in the order of the input, exactly the events that have a place and a magnitude
  that is absent or not below 0. So it returns the whole input, unchanged, when every event
  has a place and no event has a magnitude below 0; an absent magnitude passes as 0. Of
  the builtin this uses that it lowers the empty string to the empty string.
\<close>

theorem vacuous_filter_keeps_placed_nonnegative:
  "toLowerCase [] = [] \<Longrightarrow>
   filteredEarthquakes toLowerCase events [] 0 = filter placedNonNegative events
   \<and> ((\<forall>e \<in> set events. placedNonNegative e) \<longrightarrow>
        filteredEarthquakes toLowerCase events [] 0 = events)"
  by (simp add: filteredEarthquakes_def vacuous_keeps)

theorem vacuous_filter_keeps_placed_nonnegative_witness:
  "toLowerCaseASCII [] = []
   \<and> placedNonNegative (mkEarthquake ''a'' None (Some (ascii ''Alaska'')) 2)
   \<and> placedNonNegative (mkEarthquake ''b'' (Some 1.5) (Some []) 1)
   \<and> filteredEarthquakes toLowerCaseASCII
        [mkEarthquake ''a'' None (Some (ascii ''Alaska'')) 2,
         mkEarthquake ''b'' (Some 1.5) (Some []) 1] [] 0
     = [mkEarthquake ''a'' None (Some (ascii ''Alaska'')) 2,
        mkEarthquake ''b'' (Some 1.5) (Some []) 1]"
  using vacuous_filter_keeps_placed_nonnegative
    [of toLowerCaseASCII
        "[mkEarthquake ''a'' None (Some (ascii ''Alaska'')) 2,
          mkEarthquake ''b'' (Some 1.5) (Some []) 1]"]
  by (simp add: placedNonNegative_def mkEarthquake_def toNumber_def toLowerCaseASCII_def)

text \<open>
  Claim C2, as the spec states it: of the three events with the magnitudes 6.0, 2.0, 4.5 and
  the places "Tokyo Bay", "", "Near Tokyo", the search term "tokyo" with the minimum
  magnitude 3 leaves exactly the third. The code leaves two events: "Tokyo Bay" contains
  the term as well, and 6.0 is not below 3.
\<close>

theorem tokyo_scenario_not_one_event:
  "filteredEarthquakes toLowerCaseASCII
     [mkEarthquake ''e1'' (Some 6.0) (Some (ascii ''Tokyo Bay'')) 3,
      mkEarthquake ''e2'' (Some 2.0) (Some []) 2,
      mkEarthquake ''e3'' (Some 4.5) (Some (ascii ''Near Tokyo'')) 1] (ascii ''tokyo'') 3
   \<noteq> [mkEarthquake ''e3'' (Some 4.5) (Some (ascii ''Near Tokyo'')) 1]"
  by (simp add: filteredEarthquakes_def matchesSearch_def matchesMagnitude_def toNumber_def
      mkEarthquake_def toLowerCaseASCII_def ascii_def)

text \<open>
  Claim C2, amended: for the three events with the magnitudes 6.0, 2.0, 4.5 and the places
  "Tokyo Bay", "", "Near Tokyo", the search term "tokyo" with the minimum magnitude 3
  returns exactly two events, in the order of the input: the one with magnitude 6.0 and
  place "Tokyo Bay", then the one with magnitude 4.5 and place "Near Tokyo". Only the
  event with magnitude 2.0 and the empty place is left out. Identities and times are free.
  Of the builtin this uses what it makes of the three strings it is applied to, which
  decide the outcome: "tokyo bay", "near tokyo" and "tokyo".
\<close>

theorem tokyo_scenario_two_events:
  assumes "toLowerCase (ascii ''Tokyo Bay'') = ascii ''tokyo bay''"
    and "toLowerCase (ascii ''Near Tokyo'') = ascii ''near tokyo''"
    and "toLowerCase (ascii ''tokyo'') = ascii ''tokyo''"
  shows "filteredEarthquakes toLowerCase
     [mkEarthquake i1 (Some 6.0) (Some (ascii ''Tokyo Bay'')) t1,
      mkEarthquake i2 (Some 2.0) (Some []) t2,
      mkEarthquake i3 (Some 4.5) (Some (ascii ''Near Tokyo'')) t3] (ascii ''tokyo'') 3
   = [mkEarthquake i1 (Some 6.0) (Some (ascii ''Tokyo Bay'')) t1,
      mkEarthquake i3 (Some 4.5) (Some (ascii ''Near Tokyo'')) t3]"
  by (simp add: filteredEarthquakes_def matchesSearch_def matchesMagnitude_def toNumber_def
      mkEarthquake_def assms) (simp add: ascii_def)

theorem tokyo_scenario_two_events_witness:
  "filteredEarthquakes toLowerCaseASCII
     [mkEarthquake ''e1'' (Some 6.0) (Some (ascii ''Tokyo Bay'')) 3,
      mkEarthquake ''e2'' (Some 2.0) (Some []) 2,
      mkEarthquake ''e3'' (Some 4.5) (Some (ascii ''Near Tokyo'')) 1] (ascii ''tokyo'') 3
   = [mkEarthquake ''e1'' (Some 6.0) (Some (ascii ''Tokyo Bay'')) 3,
      mkEarthquake ''e3'' (Some 4.5) (Some (ascii ''Near Tokyo'')) 1]"
proof -
  have "toLowerCaseASCII (ascii ''Tokyo Bay'') = ascii ''tokyo bay''"
    and "toLowerCaseASCII (ascii ''Near Tokyo'') = ascii ''near tokyo''"
    and "toLowerCaseASCII (ascii ''tokyo'') = ascii ''tokyo''"
    by (simp_all add: toLowerCaseASCII_def ascii_def)
  then show ?thesis
    by (rule tokyo_scenario_two_events)
qed



text \<open>
  Claim C4: for every event list and minimum magnitude and every search term that is not
  empty, no event of the output has an absent place. This holds whatever the builtin does
  to a string.
\<close>

theorem filteredEarthquakes_place_present:
  "searchTerm \<noteq> [] \<Longrightarrow>
   \<forall>e \<in> set (filteredEarthquakes toLowerCase events searchTerm minMagnitude).
     place (properties e) \<noteq> None"
  by (auto simp: filteredEarthquakes_def matchesSearch_def split: option.splits)

theorem filteredEarthquakes_place_present_witness:
  "ascii ''tokyo'' \<noteq> []
   \<and> filteredEarthquakes toLowerCaseASCII
        [mkEarthquake ''a'' (Some 5) None 2,
         mkEarthquake ''b'' (Some 5) (Some (ascii ''Tokyo'')) 1] (ascii ''tokyo'') 0
       = [mkEarthquake ''b'' (Some 5) (Some (ascii ''Tokyo'')) 1]
   \<and> place (properties (mkEarthquake ''b'' (Some 5) (Some (ascii ''Tokyo'')) 1)) \<noteq> None"
  using filteredEarthquakes_place_present
    [of "ascii ''tokyo''" toLowerCaseASCII
        "[mkEarthquake ''a'' (Some 5) None 2,
          mkEarthquake ''b'' (Some 5) (Some (ascii ''Tokyo'')) 1]" 0]
  by (simp add: filteredEarthquakes_def matchesSearch_def matchesMagnitude_def toNumber_def
      mkEarthquake_def toLowerCaseASCII_def ascii_def)

section \<open>The feed client\<close>

text \<open>
  Claim C5: on a successful fetch (the request resolves, the response is ok and its payload
  decodes to the events \<open>features\<close>) the run ends without an error and the stored sequence
  holds the events of the payload sorted descending by time: of every two adjacent events
  the earlier one has a time at least that of the later one.
\<close>

theorem fetch_success_sorted_descending:
  assumes "ok resp" and "json resp = Inr features"
  shows "error (fetchEarthquakes (Resolved resp) now s) = None
    \<and> mset (earthquakes (fetchEarthquakes (Resolved resp) now s)) = mset features
    \<and> (\<forall>i. Suc i < length (earthquakes (fetchEarthquakes (Resolved resp) now s)) \<longrightarrow>
          time (properties (earthquakes (fetchEarthquakes (Resolved resp) now s) ! Suc i))
            \<le> time (properties (earthquakes (fetchEarthquakes (Resolved resp) now s) ! i)))"
  using assms
  by (simp add: fetch_success mset_array_sort adjacent_newestFirst sorted_array_sort)

theorem fetch_success_sorted_descending_witness:
  "ok \<lparr>ok = True, status = 200,
       json = Inr [mkEarthquake ''a'' None None 3, mkEarthquake ''b'' None None 5,
                   mkEarthquake ''c'' None None 3]\<rparr>
   \<and> earthquakes
        (fetchEarthquakes
           (Resolved \<lparr>ok = True, status = 200,
              json = Inr [mkEarthquake ''a'' None None 3, mkEarthquake ''b'' None None 5,
                          mkEarthquake ''c'' None None 3]\<rparr>)
           7 \<lparr>earthquakes = [], loading = False, error = None, lastUpdated = None\<rparr>)
       = [mkEarthquake ''b'' None None 5, mkEarthquake ''a'' None None 3,
          mkEarthquake ''c'' None None 3]
   \<and> error
        (fetchEarthquakes
           (Resolved \<lparr>ok = True, status = 200,
              json = Inr [mkEarthquake ''a'' None None 3, mkEarthquake ''b'' None None 5,
                          mkEarthquake ''c'' None None 3]\<rparr>)
           7 \<lparr>earthquakes = [], loading = False, error = None, lastUpdated = None\<rparr>)
       = None"
proof -
  let ?fs = "[mkEarthquake ''a'' None None 3, mkEarthquake ''b'' None None 5,
              mkEarthquake ''c'' None None 3]"
  let ?resp = "\<lparr>ok = True, status = 200, json = Inr ?fs\<rparr>"
  let ?s = "\<lparr>earthquakes = [], loading = False, error = None, lastUpdated = None\<rparr>"
  have h1: "ok ?resp" and h2: "json ?resp = Inr ?fs"
    by simp_all
  have v: "earthquakes (fetchEarthquakes (Resolved ?resp) 7 ?s)
             = [mkEarthquake ''b'' None None 5, mkEarthquake ''a'' None None 3,
                mkEarthquake ''c'' None None 3]"
    by (simp add: fetchEarthquakes_def tryBlock_def array_sort_def compareFn_def
        mkEarthquake_def)
  from fetch_success_sorted_descending [OF h1 h2, of 7 ?s] h1 v
  show ?thesis by blast
qed

text \<open>
  Claim C6: when the fetch fails, the run ends with the error set to a message and the
  stored events are the ones stored before. A transport failure (the request rejects) and
  a payload that does not decode leave the message of the error thrown, or the text
  "Failed to fetch earthquake data" when what was thrown is no error object; a response
  that is not ok leaves "HTTP error! status: " followed by the decimal numeral of the
  status.
\<close>

theorem fetch_failure_keeps_events:
  "(error (fetchEarthquakes (Rejected (ErrorObject m)) now s) = Some m
      \<and> earthquakes (fetchEarthquakes (Rejected (ErrorObject m)) now s) = earthquakes s)
   \<and> (error (fetchEarthquakes (Rejected OtherValue) now s)
        = Some ''Failed to fetch earthquake data''
      \<and> earthquakes (fetchEarthquakes (Rejected OtherValue) now s) = earthquakes s)
   \<and> (\<not> ok resp \<longrightarrow>
        (\<exists>ds. error (fetchEarthquakes (Resolved resp) now s)
                = Some (''HTTP error! status: '' @ ds)
              \<and> decimalValue ds = Some (status resp))
        \<and> earthquakes (fetchEarthquakes (Resolved resp) now s) = earthquakes s)
   \<and> (ok resp \<and> json resp = Inl (ErrorObject m) \<longrightarrow>
        error (fetchEarthquakes (Resolved resp) now s) = Some m
        \<and> earthquakes (fetchEarthquakes (Resolved resp) now s) = earthquakes s)
   \<and> (ok resp \<and> json resp = Inl OtherValue \<longrightarrow>
        error (fetchEarthquakes (Resolved resp) now s)
          = Some ''Failed to fetch earthquake data''
        \<and> earthquakes (fetchEarthquakes (Resolved resp) now s) = earthquakes s)"
proof -
  have not_ok: "(\<exists>ds. error (fetchEarthquakes (Resolved resp) now s)
                = Some (''HTTP error! status: '' @ ds)
              \<and> decimalValue ds = Some (status resp))
        \<and> earthquakes (fetchEarthquakes (Resolved resp) now s) = earthquakes s"
    if "\<not> ok resp"
  proof (intro conjI exI)
    show "error (fetchEarthquakes (Resolved resp) now s)
            = Some (''HTTP error! status: '' @ string_of_nat (status resp))"
      using that by (simp add: fetchEarthquakes_def tryBlock_def catchMessage_def)
    show "decimalValue (string_of_nat (status resp)) = Some (status resp)"
      by (rule decimalValue_string_of_nat)
    show "earthquakes (fetchEarthquakes (Resolved resp) now s) = earthquakes s"
      using that by (simp add: fetchEarthquakes_def tryBlock_def)
  qed
  then show ?thesis
    by (simp add: fetchEarthquakes_def tryBlock_def catchMessage_def)
qed

theorem fetch_failure_keeps_events_witness:
  "error (fetchEarthquakes (Resolved \<lparr>ok = False, status = 503, json = Inr []\<rparr>) 7
            \<lparr>earthquakes = [mkEarthquake ''a'' (Some 4) None 3],
             loading = False, error = None, lastUpdated = Some 1\<rparr>)
     = Some ''HTTP error! status: 503''
   \<and> decimalValue ''503'' = Some 503
   \<and> earthquakes (fetchEarthquakes (Resolved \<lparr>ok = False, status = 503, json = Inr []\<rparr>) 7
            \<lparr>earthquakes = [mkEarthquake ''a'' (Some 4) None 3],
             loading = False, error = None, lastUpdated = Some 1\<rparr>)
     = [mkEarthquake ''a'' (Some 4) None 3]
   \<and> error (fetchEarthquakes
              (Resolved \<lparr>ok = True, status = 200,
                 json = Inl (ErrorObject ''Unexpected end of JSON input'')\<rparr>) 7
            \<lparr>earthquakes = [mkEarthquake ''a'' (Some 4) None 3],
             loading = False, error = None, lastUpdated = Some 1\<rparr>)
     = Some ''Unexpected end of JSON input''
   \<and> earthquakes (fetchEarthquakes
              (Resolved \<lparr>ok = True, status = 200,
                 json = Inl (ErrorObject ''Unexpected end of JSON input'')\<rparr>) 7
            \<lparr>earthquakes = [mkEarthquake ''a'' (Some 4) None 3],
             loading = False, error = None, lastUpdated = Some 1\<rparr>)
     = [mkEarthquake ''a'' (Some 4) None 3]"
  using fetch_failure_keeps_events
    [of "''Unexpected end of JSON input''" 7
        "\<lparr>earthquakes = [mkEarthquake ''a'' (Some 4) None 3],
          loading = False, error = None, lastUpdated = Some 1\<rparr>"
        "\<lparr>ok = False, status = 503, json = Inr []\<rparr>"]
    fetch_failure_keeps_events
    [of "''Unexpected end of JSON input''" 7
        "\<lparr>earthquakes = [mkEarthquake ''a'' (Some 4) None 3],
          loading = False, error = None, lastUpdated = Some 1\<rparr>"
        "\<lparr>ok = True, status = 200,
          json = Inl (ErrorObject ''Unexpected end of JSON input'')\<rparr>"]
  by (simp add: fetchEarthquakes_def tryBlock_def catchMessage_def string_of_nat.simps
      decimalValue_def digitValue_def)

section \<open>The derivation utilities\<close>

text \<open>
  Claim C7: for every magnitude the tier is Major iff the magnitude is at least 7, Strong iff
  it is at least 5.5 and below 7, Moderate iff it is at least 4 and below 5.5, Minor iff it
  is at least 2.5 and below 4, and Micro otherwise; the tier of 6.9 is Strong and the tier
  of 7.0 is Major.
\<close>

theorem getMagnitudeLevel_thresholds:
  "(getMagnitudeLevel m = ''Major'') = (m \<ge> 7)
   \<and> (getMagnitudeLevel m = ''Strong'') = (5.5 \<le> m \<and> m < 7)
   \<and> (getMagnitudeLevel m = ''Moderate'') = (4 \<le> m \<and> m < 5.5)
   \<and> (getMagnitudeLevel m = ''Minor'') = (2.5 \<le> m \<and> m < 4)
   \<and> (getMagnitudeLevel m = ''Micro'') = (m < 2.5)
   \<and> getMagnitudeLevel 6.9 = ''Strong''
   \<and> getMagnitudeLevel 7.0 = ''Major''"
  by (simp add: getMagnitudeLevel_def)

text \<open>
  Claim C8: two magnitudes get the same colour iff they get the same tier, and there are
  exactly five colour tokens and exactly five tiers.
\<close>

theorem getMagnitudeColor_follows_level:
  "(getMagnitudeColor m1 = getMagnitudeColor m2) = (getMagnitudeLevel m1 = getMagnitudeLevel m2)
   \<and> card (range getMagnitudeColor) = 5
   \<and> card (range getMagnitudeLevel) = 5"
proof -
  have "(getMagnitudeColor m1 = getMagnitudeColor m2)
          = (getMagnitudeLevel m1 = getMagnitudeLevel m2)"
    by (simp add: getMagnitudeLevel_def getMagnitudeColor_def)
  moreover have "card (range getMagnitudeColor) = 5"
    by (simp add: range_getMagnitudeColor)
  moreover have "card (range getMagnitudeLevel) = 5"
    by (simp add: range_getMagnitudeLevel)
  ultimately show ?thesis by blast
qed

text \<open>
  Claim C9: for every timestamp not later than the current time, the text gives the age in
  whole minutes when the age is under 60 minutes, in whole hours when it is under 24 hours
  and in whole days otherwise, the noun agreeing with the count: the text up to its first
  space is the decimal numeral of that count, and the rest is the noun, in the singular for
  a count of one and in the plural otherwise, and "ago". An age of 90,000 ms gives
  "1 minute ago" and an age of 7,200,000 ms gives "2 hours ago"; the other instances stand
  at the borders between the units.
\<close>

theorem getTimeAgo_relativeAge:
  "(timestamp \<le> now \<longrightarrow>
      decimalValue (takeWhile (\<lambda>c. c \<noteq> CHR '' '') (getTimeAgo now timestamp))
        = Some (fst (relativeAgeCount (now - timestamp)))
      \<and> dropWhile (\<lambda>c. c \<noteq> CHR '' '') (getTimeAgo now timestamp)
        = agoPhrase (relativeAgeCount (now - timestamp)))
   \<and> getTimeAgo now (now - 90000) = ''1 minute ago''
   \<and> getTimeAgo now (now - 7200000) = ''2 hours ago''
   \<and> getTimeAgo now (now - 3599999) = ''59 minutes ago''
   \<and> getTimeAgo now (now - 3600000) = ''1 hour ago''
   \<and> getTimeAgo now (now - 86399999) = ''23 hours ago''
   \<and> getTimeAgo now (now - 86400000) = ''1 day ago''
   \<and> getTimeAgo now (now - 31536000000) = ''365 days ago''"
proof -
  have general: "decimalValue (takeWhile (\<lambda>c. c \<noteq> CHR '' '') (getTimeAgo now timestamp))
        = Some (fst (relativeAgeCount (now - timestamp)))
      \<and> dropWhile (\<lambda>c. c \<noteq> CHR '' '') (getTimeAgo now timestamp)
        = agoPhrase (relativeAgeCount (now - timestamp))" if "timestamp \<le> now"
    by (simp only: getTimeAgo_count_phrase [OF that] count_before_phrase phrase_after_count
        decimalValue_string_of_nat simp_thms)
  have "getTimeAgo now (now - 90000) = ''1 minute ago''"
    and "getTimeAgo now (now - 7200000) = ''2 hours ago''"
    and "getTimeAgo now (now - 3599999) = ''59 minutes ago''"
    and "getTimeAgo now (now - 3600000) = ''1 hour ago''"
    and "getTimeAgo now (now - 86399999) = ''23 hours ago''"
    and "getTimeAgo now (now - 86400000) = ''1 day ago''"
    and "getTimeAgo now (now - 31536000000) = ''365 days ago''"
    by (simp_all add: getTimeAgo_def Let_def string_of_int_def string_of_nat.simps)
  with general show ?thesis
    by blast
qed

theorem getTimeAgo_relativeAge_witness:
  "(1700000000000 :: int) \<le> 1703542400000
   \<and> getTimeAgo 1703542400000 1700000000000 = ''41 days ago''
   \<and> decimalValue (takeWhile (\<lambda>c. c \<noteq> CHR '' '') (getTimeAgo 1703542400000 1700000000000))
       = Some 41
   \<and> dropWhile (\<lambda>c. c \<noteq> CHR '' '') (getTimeAgo 1703542400000 1700000000000)
       = '' days ago''"
proof -
  have v: "getTimeAgo 1703542400000 1700000000000 = ''41 days ago''"
    by (simp add: getTimeAgo_def Let_def string_of_int_def string_of_nat.simps)
  have c: "relativeAgeCount (1703542400000 - 1700000000000) = (41, ''day'')"
    by (simp add: relativeAgeCount_def)
  from getTimeAgo_relativeAge [of 1700000000000 1703542400000] v c
  show ?thesis
    by (simp add: agoPhrase_def)
qed

text \<open>
  Claim C10: for every timestamp whose age is not negative and below 60,000 ms the text is
  exactly "0 minutes ago".
\<close>

theorem getTimeAgo_under_a_minute:
  "0 \<le> now - timestamp \<Longrightarrow> now - timestamp < 60000 \<Longrightarrow>
   getTimeAgo now timestamp = ''0 minutes ago''"
  by (simp add: getTimeAgo_def Let_def string_of_int_def string_of_nat.simps)

theorem getTimeAgo_under_a_minute_witness:
  "(0 :: int) \<le> 1700000059999 - 1700000000000
   \<and> (1700000059999 :: int) - 1700000000000 < 60000
   \<and> getTimeAgo 1700000059999 1700000000000 = ''0 minutes ago''"
  using getTimeAgo_under_a_minute [of 1700000059999 1700000000000]
  by simp

end

